theory Spec2Isabelle
  imports Main "HOL-Library.Word"
begin

section \<open>Bytes, keys, errors\<close>

text \<open>
  The module \<open>packages/common/src/actions/account.ts\<close> builds transaction instructions
  and encodes or decodes metadata records through a schema table. A \<open>Buffer\<close> is a list
  of bytes. A JavaScript string is represented by the sequence of its UTF-8 bytes, one
  \<open>char\<close> per byte, so \<open>length\<close> counts bytes as the wire format does.
\<close>

type_synonym byte = "8 word"
type_synonym Buffer = "byte list"

text \<open>
  A \<open>PublicKey\<close> wraps the bytes it was built from; \<open>toBuffer\<close> gives them back. Every
  key the codec builds comes from a 32-byte field.
\<close>

datatype PublicKey = PublicKey (toBuffer: Buffer)

datatype error = MalformedInput | InvalidValue | SchemaLookupError | DerivationError

definition byte_of_char :: "char \<Rightarrow> byte" where
  "byte_of_char c = word_of_nat (of_char c)"

definition char_of_byte :: "byte \<Rightarrow> char" where
  "char_of_byte b = char_of (unat b)"

text \<open>\<open>Buffer.from(s)\<close>: the UTF-8 bytes of a string.\<close>

definition Buffer_from :: "string \<Rightarrow> Buffer" where
  "Buffer_from s = map byte_of_char s"

definition Buffer_toString :: "Buffer \<Rightarrow> string" where
  "Buffer_toString b = map char_of_byte b"

section \<open>Length constants\<close>

definition MAX_NAME_LENGTH :: nat where
  "MAX_NAME_LENGTH = 32"

definition MAX_SYMBOL_LENGTH :: nat where
  "MAX_SYMBOL_LENGTH = 10"

definition MAX_URI_LENGTH :: nat where
  "MAX_URI_LENGTH = 200"

definition MAX_METADATA_LEN :: nat where
  "MAX_METADATA_LEN = 32 + MAX_NAME_LENGTH + MAX_SYMBOL_LENGTH + MAX_URI_LENGTH + 200"

definition MAX_OWNER_LEN :: nat where
  "MAX_OWNER_LEN = 32 + 32"

section \<open>Objects and the schema table\<close>

text \<open>
  A property of a JavaScript object holds a number, a boolean, a string, a byte buffer or a
  key. An object is the list of its defined properties; a name that is not in the list
  reads as \<open>undefined\<close>, which is \<open>None\<close> here.
\<close>

datatype jsval = JNum int | JBool bool | JStr string | JBuf Buffer | JKey PublicKey

type_synonym obj = "(string \<times> jsval) list"

datatype field_type = U8 | String_t | Array_t nat | Option_t field_type

type_synonym struct_schema = "(string \<times> field_type) list"

datatype class_id = CreateMetadataArgs_c | UpdateMetadataArgs_c | Metadata_c | NameSymbolTuple_c

definition SCHEMA :: "(class_id \<times> struct_schema) list" where
  "SCHEMA =
    [(CreateMetadataArgs_c,
        [(''instruction'', U8),
         (''allow_duplicates'', U8),
         (''name'', String_t),
         (''symbol'', String_t),
         (''uri'', String_t)]),
     (UpdateMetadataArgs_c,
        [(''instruction'', U8),
         (''uri'', String_t),
         (''non_unique_specific_update_authority'', U8)]),
     (Metadata_c,
        [(''allow_duplicates'', Option_t U8),
         (''mint'', Array_t 32),
         (''name'', String_t),
         (''symbol'', String_t),
         (''uri'', String_t)]),
     (NameSymbolTuple_c,
        [(''update_authority'', Array_t 32),
         (''metadata'', Array_t 32)])]"

section \<open>The classes of the module\<close>

record CreateMetadataArgs =
  cma_instruction :: int
  cma_allow_duplicates :: bool
  cma_name :: string
  cma_symbol :: string
  cma_uri :: string

text \<open>The constructor takes name, symbol and uri; the other two fields have initialisers.\<close>

definition new_CreateMetadataArgs :: "string \<Rightarrow> string \<Rightarrow> string \<Rightarrow> CreateMetadataArgs" where
  "new_CreateMetadataArgs name symbol uri =
     \<lparr>cma_instruction = 0, cma_allow_duplicates = False,
      cma_name = name, cma_symbol = symbol, cma_uri = uri\<rparr>"

definition CreateMetadataArgs_props :: "CreateMetadataArgs \<Rightarrow> obj" where
  "CreateMetadataArgs_props v =
     [(''instruction'', JNum (cma_instruction v)),
      (''allow_duplicates'', JBool (cma_allow_duplicates v)),
      (''name'', JStr (cma_name v)),
      (''symbol'', JStr (cma_symbol v)),
      (''uri'', JStr (cma_uri v))]"




section \<open>The binary codec\<close>

text \<open>
  Modelled from the spec: \<open>serialize\<close> and \<open>BinaryReader\<close> of the \<open>borsh\<close> package and
  \<open>deserializeBorsh\<close> of \<open>utils/borsh\<close> are not among the sources. The spec gives the wire
  format: fields in declared order; \<open>u8\<close> is one byte; \<open>string\<close> is a 4-byte
  little-endian length prefix and the raw UTF-8 bytes; a fixed array \<open>[N]\<close> is exactly N
  raw bytes and encoding fails if the input does not have N bytes; \<open>option<T>\<close> is one
  presence byte followed by \<open>T\<close> if present. The length prefix holds the length modulo
  \<open>2 ^ 32\<close>.
\<close>

definition u32le :: "nat \<Rightarrow> Buffer" where
  "u32le n =
     [word_of_nat (n mod 256),
      word_of_nat (n div 256 mod 256),
      word_of_nat (n div 65536 mod 256),
      word_of_nat (n div 16777216 mod 256)]"

text \<open>
  Modelled from the spec: writing one field (\<open>serialize\<close> is not among the sources). A
  number written as \<open>u8\<close> must lie in 0..255; a boolean written as \<open>u8\<close> is 0 or 1; a
  fixed array takes a byte buffer of the declared length and nothing else, so a
  \<open>PublicKey\<close> object is refused; an undefined value is an absent option and an error for
  every other type.
\<close>

fun serializeField :: "field_type \<Rightarrow> jsval option \<Rightarrow> error + Buffer" where
  "serializeField U8 (Some (JNum n)) =
     (if 0 \<le> n \<and> n \<le> 255 then Inr [word_of_int n] else Inl InvalidValue)"
| "serializeField U8 (Some (JBool b)) = Inr [if b then 1 else 0]"
| "serializeField String_t (Some (JStr s)) = Inr (u32le (length s) @ Buffer_from s)"
| "serializeField (Array_t n) (Some (JBuf b)) =
     (if length b = n then Inr b else Inl InvalidValue)"
| "serializeField (Option_t t) None = Inr [0]"
| "serializeField (Option_t t) (Some v) =
     (case serializeField t (Some v) of Inl e \<Rightarrow> Inl e | Inr bs \<Rightarrow> Inr (1 # bs))"
| "serializeField _ _ = Inl InvalidValue"

text \<open>
  Modelled from the spec: writing the fields of a struct in declared order, each read from
  the object by its name.
\<close>

fun serializeStruct :: "struct_schema \<Rightarrow> obj \<Rightarrow> error + Buffer" where
  "serializeStruct [] ob = Inr []"
| "serializeStruct ((fieldName, fieldType) # rest_fields) ob =
     (case serializeField fieldType (map_of ob fieldName) of
        Inl e \<Rightarrow> Inl e
      | Inr bs \<Rightarrow>
          (case serializeStruct rest_fields ob of
             Inl e \<Rightarrow> Inl e
           | Inr rest \<Rightarrow> Inr (bs @ rest)))"

text \<open>
  Modelled from the spec: \<open>serialize(schema, obj)\<close> looks the object's class up in the
  table; a class that is not registered is a schema lookup error.
\<close>

definition serialize :: "(class_id \<times> struct_schema) list \<Rightarrow> class_id \<Rightarrow> obj \<Rightarrow> error + Buffer" where
  "serialize schema c ob =
     (case map_of schema c of
        None \<Rightarrow> Inl SchemaLookupError
      | Some field_list \<Rightarrow> serializeStruct field_list ob)"

text \<open>
  Modelled from the spec: the reader (\<open>BinaryReader\<close> is not among the sources). The
  cursor is the list of bytes not yet read. Each read fails with \<open>MalformedInput\<close> when
  the buffer does not hold the bytes it needs.
\<close>

definition readU8 :: "Buffer \<Rightarrow> error + (byte \<times> Buffer)" where
  "readU8 buf = (case buf of [] \<Rightarrow> Inl MalformedInput | b # rest \<Rightarrow> Inr (b, rest))"

text \<open>
  Modelled from the spec: reading the 4-byte little-endian length prefix of a string
  (\<open>BinaryReader\<close> is not among the sources).
\<close>

definition readU32 :: "Buffer \<Rightarrow> error + (nat \<times> Buffer)" where
  "readU32 buf =
     (case buf of
        b0 # b1 # b2 # b3 # rest \<Rightarrow>
          Inr (unat b0 + 256 * unat b1 + 65536 * unat b2 + 16777216 * unat b3, rest)
      | _ \<Rightarrow> Inl MalformedInput)"

text \<open>
  Modelled from the spec: reading \<open>len\<close> raw bytes, which fails when fewer remain
  (\<open>BinaryReader\<close> is not among the sources).
\<close>

definition readBuffer :: "nat \<Rightarrow> Buffer \<Rightarrow> error + (Buffer \<times> Buffer)" where
  "readBuffer len buf =
     (if length buf < len then Inl MalformedInput else Inr (take len buf, drop len buf))"

text \<open>
  Modelled from the spec: reading a string, its length prefix first and then that many
  bytes (\<open>BinaryReader\<close> is not among the sources).
\<close>

definition readString :: "Buffer \<Rightarrow> error + (string \<times> Buffer)" where
  "readString buf =
     (case readU32 buf of
        Inl e \<Rightarrow> Inl e
      | Inr (len, rest) \<Rightarrow>
          (case readBuffer len rest of
             Inl e \<Rightarrow> Inl e
           | Inr (bs, rest') \<Rightarrow> Inr (Buffer_toString bs, rest')))"

text \<open>
  Modelled from the spec: reading one field. The result is the value, or \<open>None\<close> for an
  absent option, and the bytes that remain.
\<close>

fun deserializeField :: "field_type \<Rightarrow> Buffer \<Rightarrow> error + (jsval option \<times> Buffer)" where
  "deserializeField U8 buf =
     (case readU8 buf of Inl e \<Rightarrow> Inl e | Inr (b, rest) \<Rightarrow> Inr (Some (JNum (uint b)), rest))"
| "deserializeField String_t buf =
     (case readString buf of Inl e \<Rightarrow> Inl e | Inr (s, rest) \<Rightarrow> Inr (Some (JStr s), rest))"
| "deserializeField (Array_t n) buf =
     (case readBuffer n buf of Inl e \<Rightarrow> Inl e | Inr (bs, rest) \<Rightarrow> Inr (Some (JBuf bs), rest))"
| "deserializeField (Option_t t) buf =
     (case readU8 buf of
        Inl e \<Rightarrow> Inl e
      | Inr (b, rest) \<Rightarrow> if b = 0 then Inr (None, rest) else deserializeField t rest)"

text \<open>
  Modelled from the spec: reading the fields of a struct left to right into a result
  object. An absent option leaves its property undefined.
\<close>

fun deserializeFields :: "struct_schema \<Rightarrow> Buffer \<Rightarrow> error + (obj \<times> Buffer)" where
  "deserializeFields [] buf = Inr ([], buf)"
| "deserializeFields ((fieldName, fieldType) # rest_fields) buf =
     (case deserializeField fieldType buf of
        Inl e \<Rightarrow> Inl e
      | Inr (v, rest) \<Rightarrow>
          (case deserializeFields rest_fields rest of
             Inl e \<Rightarrow> Inl e
           | Inr (ob, rest') \<Rightarrow>
               Inr ((case v of None \<Rightarrow> [] | Some x \<Rightarrow> [(fieldName, x)]) @ ob, rest')))"

section \<open>Instructions, accounts and the environment\<close>

record AccountMeta =
  pubkey :: PublicKey
  isSigner :: bool
  isWritable :: bool

text \<open>An \<open>Account\<close> is a key pair; \<open>new Account()\<close> makes a fresh one.\<close>

record Account =
  publicKey :: PublicKey
  secretKey :: Buffer

record CreateAccountParams =
  fromPubkey :: PublicKey
  newAccountPubkey :: PublicKey
  lamports :: int
  space :: nat
  programId :: PublicKey

text \<open>
  An instruction is either built here from keys, a program id and a payload, or it is the
  result of a builder of \<open>@solana/web3.js\<close> or \<open>@solana/spl-token\<close>, recorded with
  the arguments of the call.
\<close>

datatype TransactionInstruction =
    TransactionInstruction "AccountMeta list" PublicKey Buffer
  | SystemProgram_createAccount CreateAccountParams
  | Token_createInitAccountInstruction PublicKey PublicKey PublicKey PublicKey
  | Token_createCloseAccountInstruction PublicKey PublicKey PublicKey PublicKey "Account list"

fun is_createAccount :: "TransactionInstruction \<Rightarrow> bool" where
  "is_createAccount (SystemProgram_createAccount p) = True"
| "is_createAccount (TransactionInstruction ks pid d) = False"
| "is_createAccount (Token_createInitAccountInstruction a b c d) = False"
| "is_createAccount (Token_createCloseAccountInstruction a b c d ss) = False"

fun is_closeAccount :: "TransactionInstruction \<Rightarrow> bool" where
  "is_closeAccount (Token_createCloseAccountInstruction a b c d ss) = True"
| "is_closeAccount (TransactionInstruction ks pid d) = False"
| "is_closeAccount (SystemProgram_createAccount p) = False"
| "is_closeAccount (Token_createInitAccountInstruction a b c d) = False"

text \<open>
  The constants of \<open>utils/ids\<close>, \<open>@solana/web3.js\<close> and \<open>@solana/spl-token\<close> that the
  module imports, the derivation of program addresses and the base-58 rendering of a key
  are parameters. A derivation either fails or gives an address and a bump.
\<close>

record env =
  TOKEN_PROGRAM_ID :: PublicKey
  WRAPPED_SOL_MINT :: PublicKey
  programIds_metadata :: PublicKey
  SystemProgram_programId :: PublicKey
  SYSVAR_RENT_PUBKEY :: PublicKey
  AccountLayout_span :: nat
  findProgramAddress :: "Buffer list \<Rightarrow> PublicKey \<Rightarrow> error + (PublicKey \<times> nat)"
  toBase58 :: "PublicKey \<Rightarrow> string"

record TokenAccountInfo =
  ti_mint :: PublicKey
  ti_owner :: PublicKey
  isNative :: bool

record TokenAccount =
  ta_pubkey :: PublicKey
  info :: TokenAccountInfo

text \<open>
  The account cache: the identifiers registered for the token-account parser, in the
  cache's order, and the lookup of an identifier, which may find nothing.
\<close>

record account_cache =
  byParser_TokenAccountParser :: "string list"
  cache_get :: "string \<Rightarrow> TokenAccount option"

section \<open>Account builders\<close>

text \<open>
  The builders push onto arrays they are given. Here each takes the lists and returns its
  result together with the lists after the call; the instruction list, the cleanup list
  and the signer list are distinct arrays. A builder that calls \<open>new Account()\<close> takes the
  fresh account as its argument \<open>account\<close>.
\<close>

definition createUninitializedAccount ::
  "env \<Rightarrow> Account \<Rightarrow> TransactionInstruction list \<Rightarrow> PublicKey \<Rightarrow> int \<Rightarrow> Account list \<Rightarrow>
   PublicKey \<times> TransactionInstruction list \<times> Account list" where
  "createUninitializedAccount E account instructions payer amount signers =
     (publicKey account,
      instructions @
        [SystemProgram_createAccount
           \<lparr>fromPubkey = payer,
            newAccountPubkey = publicKey account,
            lamports = amount,
            space = AccountLayout_span E,
            programId = TOKEN_PROGRAM_ID E\<rparr>],
      signers @ [account])"

definition ensureSplAccount ::
  "env \<Rightarrow> Account \<Rightarrow> TransactionInstruction list \<Rightarrow> TransactionInstruction list \<Rightarrow>
   TokenAccount \<Rightarrow> PublicKey \<Rightarrow> int \<Rightarrow> Account list \<Rightarrow>
   PublicKey \<times> TransactionInstruction list \<times> TransactionInstruction list \<times> Account list" where
  "ensureSplAccount E account instructions cleanupInstructions toCheck payer amount signers =
     (if \<not> isNative (info toCheck) then
        (ta_pubkey toCheck, instructions, cleanupInstructions, signers)
      else
        (case createUninitializedAccount E account instructions payer amount signers of
           (created, instructions1, signers1) \<Rightarrow>
             (created,
              instructions1 @
                [Token_createInitAccountInstruction
                   (TOKEN_PROGRAM_ID E) (WRAPPED_SOL_MINT E) created payer],
              cleanupInstructions @
                [Token_createCloseAccountInstruction
                   (TOKEN_PROGRAM_ID E) created payer payer []],
              signers1)))"

definition createTokenAccount ::
  "env \<Rightarrow> Account \<Rightarrow> TransactionInstruction list \<Rightarrow> PublicKey \<Rightarrow> int \<Rightarrow> PublicKey \<Rightarrow>
   PublicKey \<Rightarrow> Account list \<Rightarrow> PublicKey \<times> TransactionInstruction list \<times> Account list" where
  "createTokenAccount E account instructions payer accountRentExempt mint owner signers =
     (case createUninitializedAccount E account instructions payer accountRentExempt signers of
        (created, instructions1, signers1) \<Rightarrow>
          (created,
           instructions1 @
             [Token_createInitAccountInstruction (TOKEN_PROGRAM_ID E) mint created owner],
           signers1))"

text \<open>
  The predicate of the cache search: the entry is defined, its mint and its owner render
  to the wanted strings, and its identifier is not excluded.
\<close>

definition account_matches ::
  "env \<Rightarrow> string \<Rightarrow> PublicKey \<Rightarrow> string set option \<Rightarrow> TokenAccount option \<Rightarrow> bool" where
  "account_matches E accountToFind owner excluded acc =
     (case acc of
        None \<Rightarrow> False
      | Some a \<Rightarrow>
          toBase58 E (ti_mint (info a)) = accountToFind \<and>
          toBase58 E (ti_owner (info a)) = toBase58 E owner \<and>
          (case excluded of
             None \<Rightarrow> True
           | Some ex \<Rightarrow> toBase58 E (ta_pubkey a) \<notin> ex))"

definition findOrCreateAccountByMint ::
  "env \<Rightarrow> account_cache \<Rightarrow> Account \<Rightarrow> PublicKey \<Rightarrow> PublicKey \<Rightarrow>
   TransactionInstruction list \<Rightarrow> TransactionInstruction list \<Rightarrow> int \<Rightarrow> PublicKey \<Rightarrow>
   Account list \<Rightarrow> string set option \<Rightarrow>
   PublicKey \<times> TransactionInstruction list \<times> TransactionInstruction list \<times> Account list" where
  "findOrCreateAccountByMint E cache account payer owner instructions cleanupInstructions
       accountRentExempt mint signers excluded =
     (let accountToFind = toBase58 E mint;
          found = find (account_matches E accountToFind owner excluded)
                    (map (cache_get cache) (byParser_TokenAccountParser cache));
          isWrappedSol = (accountToFind = toBase58 E (WRAPPED_SOL_MINT E));
          creating =
            (case createTokenAccount E account instructions payer accountRentExempt
                    mint owner signers of
               (toAccount, instructions1, signers1) \<Rightarrow>
                 (toAccount,
                  instructions1,
                  if isWrappedSol then
                    cleanupInstructions @
                      [Token_createCloseAccountInstruction
                         (TOKEN_PROGRAM_ID E) toAccount payer payer []]
                  else cleanupInstructions,
                  signers1))
      in case found of
           Some (Some a) \<Rightarrow>
             if \<not> isWrappedSol then (ta_pubkey a, instructions, cleanupInstructions, signers)
             else creating
         | _ \<Rightarrow> creating)"

section \<open>Metadata instructions\<close>



section \<open>The metadata record and its decoder\<close>

text \<open>
  \<open>Metadata\<close> has two optional fields, \<open>updateAuthority\<close> and \<open>extended\<close>. The type of
  \<open>extended\<close> is \<open>any\<close> in the source: it is a type parameter here.
\<close>

record 'x Metadata =
  updateAuthority :: "PublicKey option"
  mint :: PublicKey
  name :: string
  symbol :: string
  uri :: string
  extended :: "'x option"

text \<open>
  The constructor reads \<open>updateAuthority\<close>, \<open>mint\<close>, \<open>name\<close>, \<open>symbol\<close> and \<open>uri\<close>
  from its argument object and nothing else: \<open>updateAuthority\<close> stays undefined when the
  argument has none, and \<open>extended\<close> is never assigned. An argument whose fields do not have
  the declared types is an error here.
\<close>

definition new_Metadata :: "obj \<Rightarrow> error + 'x Metadata" where
  "new_Metadata args =
     (case (map_of args ''mint'', map_of args ''name'', map_of args ''symbol'', map_of args ''uri'') of
        (Some (JBuf m), Some (JStr n), Some (JStr s), Some (JStr u)) \<Rightarrow>
          (case map_of args ''updateAuthority'' of
             None \<Rightarrow>
               Inr \<lparr>updateAuthority = None, mint = PublicKey m,
                    name = n, symbol = s, uri = u, extended = None\<rparr>
           | Some (JBuf a) \<Rightarrow>
               Inr \<lparr>updateAuthority = Some (PublicKey a), mint = PublicKey m,
                    name = n, symbol = s, uri = u, extended = None\<rparr>
           | Some _ \<Rightarrow> Inl InvalidValue)
      | _ \<Rightarrow> Inl InvalidValue)"

text \<open>
  The properties a \<open>Metadata\<close> object has. There is no \<open>allow_duplicates\<close> among them;
  \<open>extended\<close> is left out because no schema entry names it and its values are opaque.
\<close>

definition Metadata_props :: "'x Metadata \<Rightarrow> obj" where
  "Metadata_props m =
     (case updateAuthority m of None \<Rightarrow> [] | Some k \<Rightarrow> [(''updateAuthority'', JKey k)]) @
     [(''mint'', JKey (mint m)),
      (''name'', JStr (name m)),
      (''symbol'', JStr (symbol m)),
      (''uri'', JStr (uri m))]"

text \<open>
  A class is the key of its schema entry together with its constructor, as the decoder
  uses it.
\<close>

record 'a js_class =
  cid :: class_id
  construct :: "obj \<Rightarrow> error + 'a"

definition Metadata_class :: "('x Metadata) js_class" where
  "Metadata_class = \<lparr>cid = Metadata_c, construct = new_Metadata\<rparr>"

text \<open>
  Modelled from the spec: \<open>deserializeBorsh(schema, classType, buffer)\<close> of
  \<open>utils/borsh\<close>, which is not among the sources. It reads the fields the schema entry of
  the class declares, hands the result object to the constructor of the class, and ignores
  the bytes that remain.
\<close>

definition deserializeBorsh ::
  "(class_id \<times> struct_schema) list \<Rightarrow> 'a js_class \<Rightarrow> Buffer \<Rightarrow> error + 'a" where
  "deserializeBorsh schema classType buffer =
     (case map_of schema (cid classType) of
        None \<Rightarrow> Inl SchemaLookupError
      | Some field_list \<Rightarrow>
          (case deserializeFields field_list buffer of
             Inl e \<Rightarrow> Inl e
           | Inr (ob, rest) \<Rightarrow> construct classType ob))"

definition decodeMetadata :: "Buffer \<Rightarrow> error + 'x Metadata" where
  "decodeMetadata buffer = deserializeBorsh SCHEMA Metadata_class buffer"

text \<open>
  Modelled from the spec: \<open>serialize(SCHEMA, R)\<close> for an object R of the \<open>Metadata\<close>
  class, which the round-trip property of the spec speaks of. The module itself only
  decodes metadata. The properties of R are those the class declares, so the \<open>mint\<close> the
  encoder finds is a \<open>PublicKey\<close>.
\<close>

definition encodeMetadata :: "'x Metadata \<Rightarrow> error + Buffer" where
  "encodeMetadata m = serialize SCHEMA Metadata_c (Metadata_props m)"

text \<open>The schema entry of \<open>Metadata\<close>, as the table holds it.\<close>

definition Metadata_schema :: struct_schema where
  "Metadata_schema =
     [(''allow_duplicates'', Option_t U8), (''mint'', Array_t 32),
      (''name'', String_t), (''symbol'', String_t), (''uri'', String_t)]"

text \<open>
  A \<open>Metadata\<close> record within the declared bounds: a mint of 32 bytes and name, symbol
  and uri no longer than their maxima.
\<close>

definition valid_Metadata :: "'x Metadata \<Rightarrow> bool" where
  "valid_Metadata R \<longleftrightarrow>
     length (toBuffer (mint R)) = 32 \<and>
     length (name R) \<le> MAX_NAME_LENGTH \<and>
     length (symbol R) \<le> MAX_SYMBOL_LENGTH \<and>
     length (uri R) \<le> MAX_URI_LENGTH"

text \<open>
  The bytes of the layout for the mint, name, symbol and uri of a record, with the option
  tag 0 in front.
\<close>

definition Metadata_wire :: "'x Metadata \<Rightarrow> Buffer" where
  "Metadata_wire R =
     0 # toBuffer (mint R) @
     u32le (length (name R)) @ Buffer_from (name R) @
     u32le (length (symbol R)) @ Buffer_from (symbol R) @
     u32le (length (uri R)) @ Buffer_from (uri R)"

text \<open>
  Modelled from the spec: the \<open>Metadata\<close> record of the data model, an object with the
  properties of the schema entry: an optional \<open>allow_duplicates\<close> byte, the mint as a
  byte buffer, name, symbol and uri.
\<close>

definition Metadata_fields :: "byte option \<Rightarrow> Buffer \<Rightarrow> string \<Rightarrow> string \<Rightarrow> string \<Rightarrow> obj" where
  "Metadata_fields ad m n s u =
     (case ad of None \<Rightarrow> [] | Some b \<Rightarrow> [(''allow_duplicates'', JNum (uint b))]) @
     [(''mint'', JBuf m), (''name'', JStr n), (''symbol'', JStr s), (''uri'', JStr u)]"

text \<open>The bytes of the layout for such a record, written out.\<close>

definition Metadata_image :: "byte option \<Rightarrow> Buffer \<Rightarrow> string \<Rightarrow> string \<Rightarrow> string \<Rightarrow> Buffer" where
  "Metadata_image ad m n s u =
     (case ad of None \<Rightarrow> [0] | Some b \<Rightarrow> [1, b]) @ m @
     u32le (length n) @ Buffer_from n @
     u32le (length s) @ Buffer_from s @
     u32le (length u) @ Buffer_from u"

text \<open>
  Modelled from the spec: the round trip \<open>decode(encode(R))\<close>, decoding what encoding
  produced; an encoding error is passed on. The first is for an object given by its
  properties, the second for an object of the \<open>Metadata\<close> class.
\<close>

definition decode_encode_fields :: "obj \<Rightarrow> error + 'x Metadata" where
  "decode_encode_fields ob =
     (case serialize SCHEMA Metadata_c ob of Inl e \<Rightarrow> Inl e | Inr B \<Rightarrow> decodeMetadata B)"


definition decode_encode_Metadata :: "'x Metadata \<Rightarrow> error + 'x Metadata" where
  "decode_encode_Metadata R =
     (case encodeMetadata R of Inl e \<Rightarrow> Inl e | Inr B \<Rightarrow> decodeMetadata B)"

section \<open>Example values\<close>

text \<open>
  The derivation of the example environment refuses a seed of more than 32 bytes, as the
  derivation of program addresses does.
\<close>

definition example_env :: env where
  "example_env =
     \<lparr>TOKEN_PROGRAM_ID = PublicKey [6],
      WRAPPED_SOL_MINT = PublicKey [7],
      programIds_metadata = PublicKey [8],
      SystemProgram_programId = PublicKey [0],
      SYSVAR_RENT_PUBKEY = PublicKey [9],
      AccountLayout_span = 165,
      findProgramAddress =
        (\<lambda>seeds pid. if list_ex (\<lambda>seed. 32 < length seed) seeds then Inl DerivationError
                      else Inr (PublicKey (concat seeds), 255)),
      toBase58 = (\<lambda>k. if k = PublicKey [2] then ''mint''
                      else if k = PublicKey [3] then ''token''
                      else if k = PublicKey [4] then ''owner''
                      else if k = PublicKey [7] then ''wsol''
                      else if k = PublicKey [10] then ''native''
                      else ''other'')\<rparr>"

definition example_account :: Account where
  "example_account = \<lparr>publicKey = PublicKey [5], secretKey = [1, 2, 3]\<rparr>"

definition example_token_account :: TokenAccount where
  "example_token_account =
     \<lparr>ta_pubkey = PublicKey [3],
      info = \<lparr>ti_mint = PublicKey [2], ti_owner = PublicKey [4], isNative = False\<rparr>\<rparr>"

definition example_native_account :: TokenAccount where
  "example_native_account =
     \<lparr>ta_pubkey = PublicKey [10],
      info = \<lparr>ti_mint = PublicKey [7], ti_owner = PublicKey [4], isNative = True\<rparr>\<rparr>"

definition example_cache :: account_cache where
  "example_cache =
     \<lparr>byParser_TokenAccountParser = [''gone'', ''token'', ''native''],
      cache_get = (\<lambda>i. if i = ''token'' then Some example_token_account
                       else if i = ''native'' then Some example_native_account
                       else None)\<rparr>"

definition example_Metadata :: "unit Metadata" where
  "example_Metadata =
     \<lparr>updateAuthority = None, mint = PublicKey (replicate 32 2),
      name = ''Foo'', symbol = ''FOO'', uri = ''http://x'', extended = None\<rparr>"

definition example_Metadata_with_authority :: "unit Metadata" where
  "example_Metadata_with_authority =
     \<lparr>updateAuthority = Some (PublicKey (replicate 32 4)), mint = PublicKey (replicate 32 2),
      name = ''Foo'', symbol = ''FOO'', uri = ''http://x'', extended = None\<rparr>"

section \<open>Size bound\<close>

text \<open>
  C9: the exported bound \<open>MAX_METADATA_LEN\<close> is 474, the sum 32 + 32 + 10 + 200 + 200 of
  the mint size, the three maximal string lengths 32, 10 and 200, and 200 bytes of slack.
\<close>

theorem MAX_METADATA_LEN_value:
  "MAX_METADATA_LEN = 474 \<and>
   MAX_METADATA_LEN = 32 + MAX_NAME_LENGTH + MAX_SYMBOL_LENGTH + MAX_URI_LENGTH + 200 \<and>
   MAX_NAME_LENGTH = 32 \<and> MAX_SYMBOL_LENGTH = 10 \<and> MAX_URI_LENGTH = 200"
  by (simp add: MAX_METADATA_LEN_def MAX_NAME_LENGTH_def MAX_SYMBOL_LENGTH_def MAX_URI_LENGTH_def)

section \<open>Properties of the codec\<close>

lemma char_of_byte_of_char: "char_of_byte (byte_of_char c) = c"
  by (simp add: char_of_byte_def byte_of_char_def unat_of_nat)

lemma Buffer_toString_from: "Buffer_toString (Buffer_from s) = s"
  by (simp add: Buffer_toString_def Buffer_from_def char_of_byte_of_char map_idI)

lemma length_Buffer_from: "length (Buffer_from s) = length s"
  by (simp add: Buffer_from_def)

lemma le_bytes_value:
  fixes n :: nat
  shows "n mod 256 + 256 * (n div 256 mod 256) + 65536 * (n div 65536 mod 256)
          + 16777216 * (n div 16777216 mod 256) = n mod 4294967296"
proof -
  have a: "n mod 65536 = n mod 256 + 256 * (n div 256 mod 256)"
    using mod_mult2_eq [of n 256 256] by simp
  have b: "n mod 16777216 = n mod 65536 + 65536 * (n div 65536 mod 256)"
    using mod_mult2_eq [of n 65536 256] by simp
  have c: "n mod 4294967296 = n mod 16777216 + 16777216 * (n div 16777216 mod 256)"
    using mod_mult2_eq [of n 16777216 256] by simp
  show ?thesis using a b c by simp
qed

lemma unat_byte_mod: "unat (word_of_nat (k mod 256) :: byte) = k mod 256"
  by (simp add: unat_of_nat)

lemma readU32_u32le: "readU32 (u32le n @ rest) = Inr (n mod 4294967296, rest)"
  using le_bytes_value [of n]
  by (simp add: readU32_def u32le_def unat_byte_mod)

lemma readString_written:
  assumes "length s < 4294967296"
  shows "readString (u32le (length s) @ Buffer_from s @ rest) = Inr (s, rest)"
  using assms
  by (simp add: readString_def readU32_u32le readBuffer_def length_Buffer_from
      Buffer_toString_from)

subsection \<open>Reading a longer buffer\<close>

text \<open>A read that succeeds also succeeds, with the same value, when bytes are added at the end.\<close>

lemma readU8_append:
  "readU8 xs = Inr (b, r) \<Longrightarrow> readU8 (xs @ ys) = Inr (b, r @ ys)"
  by (cases xs) (auto simp: readU8_def)

lemma readU32_append:
  "readU32 xs = Inr (n, r) \<Longrightarrow> readU32 (xs @ ys) = Inr (n, r @ ys)"
  by (auto simp: readU32_def split: list.splits)

lemma readBuffer_append:
  "readBuffer n xs = Inr (bs, r) \<Longrightarrow> readBuffer n (xs @ ys) = Inr (bs, r @ ys)"
  by (auto simp: readBuffer_def split: if_splits)

lemma readString_append:
  "readString xs = Inr (s, r) \<Longrightarrow> readString (xs @ ys) = Inr (s, r @ ys)"
  by (auto simp: readString_def readU32_append readBuffer_append split: sum.splits prod.splits)

lemma deserializeField_append:
  "deserializeField t xs = Inr (v, r) \<Longrightarrow> deserializeField t (xs @ ys) = Inr (v, r @ ys)"
proof (induction t arbitrary: xs v r)
  case U8
  then show ?case by (auto simp: readU8_append split: sum.splits prod.splits)
next
  case String_t
  then show ?case by (auto simp: readString_append split: sum.splits prod.splits)
next
  case (Array_t n)
  then show ?case by (auto simp: readBuffer_append split: sum.splits prod.splits)
next
  case (Option_t t)
  then show ?case by (auto simp: readU8_append split: sum.splits prod.splits if_splits)
qed

lemma deserializeFields_append:
  "deserializeFields fs xs = Inr (ob, r) \<Longrightarrow> deserializeFields fs (xs @ ys) = Inr (ob, r @ ys)"
proof (induction fs arbitrary: xs ob r)
  case Nil
  then show ?case by simp
next
  case (Cons f fs)
  obtain fieldName fieldType where f: "f = (fieldName, fieldType)" by (cases f)
  from Cons.prems f obtain v r1 ob1 where
    1: "deserializeField fieldType xs = Inr (v, r1)" and
    2: "deserializeFields fs r1 = Inr (ob1, r)" and
    3: "ob = (case v of None \<Rightarrow> [] | Some x \<Rightarrow> [(fieldName, x)]) @ ob1"
    by (auto split: sum.splits prod.splits)
  show ?case
    using deserializeField_append [OF 1, of ys] Cons.IH [OF 2] 3 f by simp
qed

subsection \<open>The only decoding error, and the names a decoded object has\<close>

lemma deserializeField_error:
  "deserializeField t xs = Inl e \<Longrightarrow> e = MalformedInput"
  by (induction t arbitrary: xs)
     (auto simp: readU8_def readString_def readU32_def readBuffer_def
        split: sum.splits prod.splits if_splits list.splits)

lemma deserializeFields_error:
  "deserializeFields fs xs = Inl e \<Longrightarrow> e = MalformedInput"
proof (induction fs arbitrary: xs)
  case Nil
  then show ?case by simp
next
  case (Cons f fs)
  obtain fieldName fieldType where f: "f = (fieldName, fieldType)" by (cases f)
  show ?case using Cons.prems Cons.IH f
    by (auto split: sum.splits prod.splits dest: deserializeField_error)
qed

lemma deserializeFields_names:
  "deserializeFields fs xs = Inr (ob, r) \<Longrightarrow> fst ` set ob \<subseteq> fst ` set fs"
proof (induction fs arbitrary: xs ob r)
  case Nil
  then show ?case by simp
next
  case (Cons f fs)
  obtain fieldName fieldType where f: "f = (fieldName, fieldType)" by (cases f)
  from Cons.prems f obtain v r1 ob1 where
    2: "deserializeFields fs r1 = Inr (ob1, r)" and
    3: "ob = (case v of None \<Rightarrow> [] | Some x \<Rightarrow> [(fieldName, x)]) @ ob1"
    by (auto split: sum.splits prod.splits)
  show ?case using Cons.IH [OF 2] 3 f by (auto split: option.splits)
qed

subsection \<open>Encoding argument records\<close>



text \<open>
  C2: encoding \<open>CreateMetadataArgs\<close> with name \<open>Foo\<close>, symbol \<open>FOO\<close> and uri
  \<open>http://x\<close> under its schema entry gives the opcode byte 0, the \<open>allow_duplicates\<close>
  byte 0, and each string as a little-endian 32-bit length followed by its bytes:
  3,0,0,0,F,o,o, 3,0,0,0,F,O,O, 8,0,0,0,h,t,t,p,:,/,/,x.
\<close>

theorem serialize_CreateMetadataArgs_example:
  "serialize SCHEMA CreateMetadataArgs_c
     (CreateMetadataArgs_props (new_CreateMetadataArgs ''Foo'' ''FOO'' ''http://x'')) =
   Inr [0, 0, 3, 0, 0, 0, 70, 111, 111, 3, 0, 0, 0, 70, 79, 79,
        8, 0, 0, 0, 104, 116, 116, 112, 58, 47, 47, 120]"
  by (simp add: serialize_def SCHEMA_def CreateMetadataArgs_props_def new_CreateMetadataArgs_def
      u32le_def Buffer_from_def byte_of_char_def)

subsection \<open>Encoding and decoding metadata\<close>

lemma map_of_SCHEMA_Metadata: "map_of SCHEMA Metadata_c = Some Metadata_schema"
  by (simp add: SCHEMA_def Metadata_schema_def)

lemma serialize_Metadata_fields:
  "serialize SCHEMA Metadata_c (Metadata_fields ad m nm sy u) =
     (if length m = 32 then Inr (Metadata_image ad m nm sy u) else Inl InvalidValue)"
proof (cases ad)
  case None
  then show ?thesis
    by (simp add: serialize_def map_of_SCHEMA_Metadata Metadata_schema_def Metadata_fields_def
        Metadata_image_def)
next
  case (Some b)
  have "0 \<le> uint b \<and> uint b \<le> 255"
    using uint_lt2p [of b] by simp
  with Some show ?thesis
    by (simp add: serialize_def map_of_SCHEMA_Metadata Metadata_schema_def Metadata_fields_def
        Metadata_image_def)
qed

lemma deserialize_Metadata_image:
  assumes "length m = 32"
    and "length nm < 4294967296"
    and "length sy < 4294967296"
    and "length u < 4294967296"
  shows "deserializeFields Metadata_schema (Metadata_image ad m nm sy u @ rest) =
           Inr (Metadata_fields ad m nm sy u, rest)"
  using assms
  by (cases ad)
     (simp_all add: Metadata_schema_def Metadata_image_def Metadata_fields_def readU8_def
        readBuffer_def readString_written)

lemma new_Metadata_fields:
  "new_Metadata (Metadata_fields ad m nm sy u) =
     Inr \<lparr>updateAuthority = None, mint = PublicKey m, name = nm, symbol = sy, uri = u,
          extended = None\<rparr>"
  by (cases ad) (simp_all add: new_Metadata_def Metadata_fields_def)

lemma decodeMetadata_image:
  assumes "length m = 32"
    and "length nm < 4294967296"
    and "length sy < 4294967296"
    and "length u < 4294967296"
  shows "decodeMetadata (Metadata_image ad m nm sy u @ rest) =
     Inr \<lparr>updateAuthority = None, mint = PublicKey m, name = nm, symbol = sy, uri = u,
          extended = None\<rparr>"
  using deserialize_Metadata_image [OF assms, of ad rest]
  by (simp add: decodeMetadata_def deserializeBorsh_def Metadata_class_def
      map_of_SCHEMA_Metadata new_Metadata_fields)

lemma within_bounds:
  assumes "length nm \<le> MAX_NAME_LENGTH"
    and "length sy \<le> MAX_SYMBOL_LENGTH"
    and "length u \<le> MAX_URI_LENGTH"
  shows "length nm < 4294967296" and "length sy < 4294967296" and "length u < 4294967296"
  using assms
  by (simp_all add: MAX_NAME_LENGTH_def MAX_SYMBOL_LENGTH_def MAX_URI_LENGTH_def)

lemma valid_Metadata_lengths:
  assumes "valid_Metadata R"
  shows "length (toBuffer (mint R)) = 32"
    and "length (name R) < 4294967296"
    and "length (symbol R) < 4294967296"
    and "length (uri R) < 4294967296"
  using assms
  by (simp_all add: valid_Metadata_def MAX_NAME_LENGTH_def MAX_SYMBOL_LENGTH_def
      MAX_URI_LENGTH_def)

lemma Metadata_wire_image:
  "Metadata_wire R = Metadata_image None (toBuffer (mint R)) (name R) (symbol R) (uri R)"
  by (simp add: Metadata_wire_def Metadata_image_def)

lemma decodeMetadata_wire:
  assumes "valid_Metadata R"
  shows "decodeMetadata (Metadata_wire R @ rest) =
           Inr (R\<lparr>updateAuthority := None, extended := None\<rparr>)"
proof -
  have eq: "R\<lparr>updateAuthority := None, extended := None\<rparr> =
        \<lparr>updateAuthority = None, mint = PublicKey (toBuffer (mint R)), name = name R,
         symbol = symbol R, uri = uri R, extended = None\<rparr>"
    by (cases R) simp
  have "decodeMetadata (Metadata_wire R @ rest) =
        Inr \<lparr>updateAuthority = None, mint = PublicKey (toBuffer (mint R)), name = name R,
             symbol = symbol R, uri = uri R, extended = None\<rparr>"
    unfolding Metadata_wire_image
    by (rule decodeMetadata_image [OF valid_Metadata_lengths [OF assms]])
  then show ?thesis by (simp only: eq)
qed

text \<open>
  An object of the \<open>Metadata\<close> class does not encode: its mint is a \<open>PublicKey\<close>, which
  the writer of a fixed array refuses.
\<close>

lemma encodeMetadata_fails: "encodeMetadata R = Inl InvalidValue"
  by (cases "updateAuthority R")
     (simp_all add: encodeMetadata_def serialize_def map_of_SCHEMA_Metadata Metadata_schema_def
        Metadata_props_def)

lemma decode_encode_Metadata_fails: "decode_encode_Metadata R = Inl InvalidValue"
  by (simp add: decode_encode_Metadata_def encodeMetadata_fails)

lemma valid_example_Metadata: "valid_Metadata example_Metadata"
  by (simp add: valid_Metadata_def example_Metadata_def MAX_NAME_LENGTH_def
      MAX_SYMBOL_LENGTH_def MAX_URI_LENGTH_def)

lemma valid_example_Metadata_with_authority: "valid_Metadata example_Metadata_with_authority"
  by (simp add: valid_Metadata_def example_Metadata_with_authority_def MAX_NAME_LENGTH_def
      MAX_SYMBOL_LENGTH_def MAX_URI_LENGTH_def)

text \<open>A buffer that decodes with no byte left over does not decode when it is cut short.\<close>

lemma deserializeFields_strict_prefix:
  assumes full: "deserializeFields fs B = Inr (ob, [])" and k: "k < length B"
  shows "deserializeFields fs (take k B) = Inl MalformedInput"
proof (cases "deserializeFields fs (take k B)")
  case (Inl er)
  then show ?thesis using deserializeFields_error [OF Inl] by simp
next
  case (Inr p)
  obtain ob' r where p: "p = (ob', r)" by (cases p)
  have "deserializeFields fs B = Inr (ob', r @ drop k B)"
    using deserializeFields_append [of fs "take k B" ob' r "drop k B"] Inr p by simp
  then have "r @ drop k B = []" using full by simp
  then have "length B \<le> k" by simp
  then show ?thesis using k by simp
qed

text \<open>
  C1, as the code has it: for every record of the \<open>Metadata\<close> layout, with or without an
  \<open>allow_duplicates\<close> byte, with a 32-byte mint and with name, symbol and uri within their
  bounds, encoding it under the \<open>Metadata\<close> schema entry and decoding the result succeeds
  and gives the \<open>Metadata\<close> object with that mint, name, symbol and uri; its
  \<open>updateAuthority\<close> and \<open>extended\<close> are absent and a present \<open>allow_duplicates\<close> is read
  and not kept. An object of the \<open>Metadata\<close> class itself does not encode, so its round
  trip is an error.
\<close>

theorem decode_encode_Metadata_fields:
  assumes "length m = 32"
    and "length nm \<le> MAX_NAME_LENGTH"
    and "length sy \<le> MAX_SYMBOL_LENGTH"
    and "length u \<le> MAX_URI_LENGTH"
  shows "decode_encode_fields (Metadata_fields ad m nm sy u) =
           Inr \<lparr>updateAuthority = None, mint = PublicKey m, name = nm, symbol = sy, uri = u,
                extended = None\<rparr> \<and>
         decode_encode_Metadata R = Inl InvalidValue"
  using decodeMetadata_image [OF assms(1) within_bounds [OF assms(2-4)], of ad "[]"] assms(1)
  by (simp add: decode_encode_fields_def serialize_Metadata_fields decode_encode_Metadata_fails)

theorem decode_encode_Metadata_fields_witness:
  "length (replicate 32 (2 :: byte)) = 32 \<and>
   length ''Foo'' \<le> MAX_NAME_LENGTH \<and>
   length ''FOO'' \<le> MAX_SYMBOL_LENGTH \<and>
   length ''http://x'' \<le> MAX_URI_LENGTH \<and>
   decode_encode_fields (Metadata_fields (Some 1) (replicate 32 2) ''Foo'' ''FOO'' ''http://x'') =
     Inr example_Metadata \<and>
   decode_encode_Metadata example_Metadata_with_authority = Inl InvalidValue"
proof -
  have h1: "length (replicate 32 (2 :: byte)) = 32" by simp
  have h2: "length ''Foo'' \<le> MAX_NAME_LENGTH" by (simp add: MAX_NAME_LENGTH_def)
  have h3: "length ''FOO'' \<le> MAX_SYMBOL_LENGTH" by (simp add: MAX_SYMBOL_LENGTH_def)
  have h4: "length ''http://x'' \<le> MAX_URI_LENGTH" by (simp add: MAX_URI_LENGTH_def)
  have "decode_encode_fields
          (Metadata_fields (Some 1) (replicate 32 2) ''Foo'' ''FOO'' ''http://x'') =
          Inr \<lparr>updateAuthority = None, mint = PublicKey (replicate 32 2), name = ''Foo'',
               symbol = ''FOO'', uri = ''http://x'', extended = None :: unit option\<rparr> \<and>
        decode_encode_Metadata example_Metadata_with_authority = Inl InvalidValue"
    by (rule decode_encode_Metadata_fields [OF h1 h2 h3 h4])
  then have r: "decode_encode_fields
             (Metadata_fields (Some 1) (replicate 32 2) ''Foo'' ''FOO'' ''http://x'') =
             Inr example_Metadata \<and>
           decode_encode_Metadata example_Metadata_with_authority = Inl InvalidValue"
    by (simp add: example_Metadata_def)
  from h1 h2 h3 h4 r show ?thesis by blast
qed

text \<open>
  The round trip as C1 states it fails: the record is a \<open>Metadata\<close> object within the
  bounds, with neither optional field, and decoding its encoding does not give it back,
  because encoding it is an error.
\<close>

theorem decode_encode_Metadata_counterexample:
  "valid_Metadata example_Metadata \<and>
   decode_encode_Metadata example_Metadata \<noteq> Inr example_Metadata"
  using valid_example_Metadata by (simp add: decode_encode_Metadata_fails)

text \<open>
  C3: for every record of the \<open>Metadata\<close> layout, with or without an \<open>allow_duplicates\<close>
  byte, whose name, symbol and uri are within their bounds, decoding a strict prefix of its
  encoding fails with \<open>MalformedInput\<close>.
\<close>

theorem decodeMetadata_truncated:
  assumes e: "serialize SCHEMA Metadata_c (Metadata_fields ad m nm sy u) = Inr B"
    and b: "length nm \<le> MAX_NAME_LENGTH" "length sy \<le> MAX_SYMBOL_LENGTH"
      "length u \<le> MAX_URI_LENGTH"
    and k: "k < length B"
  shows "(decodeMetadata (take k B) :: error + 'y Metadata) = Inl MalformedInput"
proof -
  have m: "length m = 32"
    using e by (simp add: serialize_Metadata_fields split: if_splits)
  then have B: "B = Metadata_image ad m nm sy u"
    using e by (simp add: serialize_Metadata_fields)
  have "deserializeFields Metadata_schema B = Inr (Metadata_fields ad m nm sy u, [])"
    using deserialize_Metadata_image [OF m within_bounds [OF b], of ad "[]"] B by simp
  then have "deserializeFields Metadata_schema (take k B) = Inl MalformedInput"
    using k by (rule deserializeFields_strict_prefix)
  then show ?thesis
    by (simp add: decodeMetadata_def deserializeBorsh_def Metadata_class_def
        map_of_SCHEMA_Metadata)
qed

theorem decodeMetadata_truncated_witness:
  "serialize SCHEMA Metadata_c
     (Metadata_fields (Some 1) (replicate 32 2) ''Foo'' ''FOO'' ''http://x'') =
     Inr (Metadata_image (Some 1) (replicate 32 2) ''Foo'' ''FOO'' ''http://x'') \<and>
   length ''Foo'' \<le> MAX_NAME_LENGTH \<and>
   length ''FOO'' \<le> MAX_SYMBOL_LENGTH \<and>
   length ''http://x'' \<le> MAX_URI_LENGTH \<and>
   59 < length (Metadata_image (Some 1) (replicate 32 2) ''Foo'' ''FOO'' ''http://x'') \<and>
   (decodeMetadata
      (take 59 (Metadata_image (Some 1) (replicate 32 2) ''Foo'' ''FOO'' ''http://x''))
      :: error + unit Metadata) = Inl MalformedInput"
proof -
  have e: "serialize SCHEMA Metadata_c
     (Metadata_fields (Some 1) (replicate 32 2) ''Foo'' ''FOO'' ''http://x'') =
     Inr (Metadata_image (Some 1) (replicate 32 2) ''Foo'' ''FOO'' ''http://x'')"
    by (simp add: serialize_Metadata_fields)
  have h2: "length ''Foo'' \<le> MAX_NAME_LENGTH" by (simp add: MAX_NAME_LENGTH_def)
  have h3: "length ''FOO'' \<le> MAX_SYMBOL_LENGTH" by (simp add: MAX_SYMBOL_LENGTH_def)
  have h4: "length ''http://x'' \<le> MAX_URI_LENGTH" by (simp add: MAX_URI_LENGTH_def)
  have k: "59 < length (Metadata_image (Some 1) (replicate 32 2) ''Foo'' ''FOO'' ''http://x'')"
    by (simp add: Metadata_image_def u32le_def Buffer_from_def)
  from decodeMetadata_truncated [OF e h2 h3 h4 k]
  have "(decodeMetadata
      (take 59 (Metadata_image (Some 1) (replicate 32 2) ''Foo'' ''FOO'' ''http://x''))
      :: error + unit Metadata) = Inl MalformedInput" .
  with e h2 h3 h4 k show ?thesis by blast
qed

text \<open>
  C8: whenever \<open>decodeMetadata\<close> succeeds, the \<open>updateAuthority\<close> of the record it returns
  is absent: the schema entry has no field of that name, so the object handed to the
  constructor has none.
\<close>

theorem decodeMetadata_no_updateAuthority:
  assumes "decodeMetadata buffer = Inr M"
  shows "updateAuthority M = None"
proof -
  from assms obtain ob r where
    d: "deserializeFields Metadata_schema buffer = Inr (ob, r)" and
    c: "new_Metadata ob = Inr M"
    by (auto simp: decodeMetadata_def deserializeBorsh_def Metadata_class_def
        map_of_SCHEMA_Metadata split: sum.splits prod.splits)
  have "''updateAuthority'' \<notin> fst ` set Metadata_schema"
    by (simp add: Metadata_schema_def)
  then have "''updateAuthority'' \<notin> fst ` set ob"
    using deserializeFields_names [OF d] by blast
  then have "map_of ob ''updateAuthority'' = None"
    by (simp add: map_of_eq_None_iff)
  then show ?thesis using c
    by (auto simp: new_Metadata_def split: option.splits jsval.splits)
qed

theorem decodeMetadata_no_updateAuthority_witness:
  "decodeMetadata (Metadata_wire example_Metadata_with_authority @ [9, 9]) =
     Inr example_Metadata \<and>
   updateAuthority example_Metadata = None"
proof -
  have d: "decodeMetadata (Metadata_wire example_Metadata_with_authority @ [9, 9]) =
        Inr example_Metadata"
    using decodeMetadata_wire [OF valid_example_Metadata_with_authority, of "[9, 9]"]
    by (simp add: example_Metadata_with_authority_def example_Metadata_def)
  from decodeMetadata_no_updateAuthority [OF d]
  have "updateAuthority example_Metadata = None" .
  with d show ?thesis by (rule conjI)
qed

section \<open>Properties of account resolution\<close>

lemma find_of_single_match:
  "filter P xs = [x] \<Longrightarrow> find P xs = Some x"
proof (induction xs)
  case Nil
  then show ?case by simp
next
  case (Cons y ys)
  then show ?case by (cases "P y") auto
qed

lemma createTokenAccount_result:
  "createTokenAccount E account instructions payer rent m owner signers =
     (publicKey account,
      instructions @
        [SystemProgram_createAccount
           \<lparr>fromPubkey = payer, newAccountPubkey = publicKey account, lamports = rent,
            space = AccountLayout_span E, programId = TOKEN_PROGRAM_ID E\<rparr>,
         Token_createInitAccountInstruction (TOKEN_PROGRAM_ID E) m (publicKey account) owner],
      signers @ [account])"
  by (simp add: createTokenAccount_def createUninitializedAccount_def)

lemma example_cache_entries:
  "map (cache_get example_cache) (byParser_TokenAccountParser example_cache) =
     [None, Some example_token_account, Some example_native_account]"
  by (simp add: example_cache_def)

text \<open>
  C5: when the mint is the wrapped-native mint, \<open>findOrCreateAccountByMint\<close> appends
  exactly one creation instruction (with the instruction that initialises the created
  account after it) to the instruction list and exactly one close instruction to the
  cleanup list, whatever the cache holds, and so also when the cache has a matching
  account that is not excluded.
\<close>

theorem findOrCreateAccountByMint_wrapped_sol:
  assumes "toBase58 E m = toBase58 E (WRAPPED_SOL_MINT E)"
  shows "let appended =
           [SystemProgram_createAccount
              \<lparr>fromPubkey = payer, newAccountPubkey = publicKey account, lamports = rent,
               space = AccountLayout_span E, programId = TOKEN_PROGRAM_ID E\<rparr>,
            Token_createInitAccountInstruction (TOKEN_PROGRAM_ID E) m (publicKey account) owner];
         closing =
           [Token_createCloseAccountInstruction (TOKEN_PROGRAM_ID E) (publicKey account)
              payer payer []]
     in findOrCreateAccountByMint E cache account payer owner instructions cleanupInstructions
            rent m signers excluded =
          (publicKey account, instructions @ appended, cleanupInstructions @ closing,
           signers @ [account]) \<and>
        length (filter is_createAccount appended) = 1 \<and>
        length (filter is_closeAccount closing) = 1"
  using assms
  by (simp add: findOrCreateAccountByMint_def createTokenAccount_result Let_def
      split: option.split)

theorem findOrCreateAccountByMint_wrapped_sol_witness:
  "toBase58 example_env (PublicKey [7]) = toBase58 example_env (WRAPPED_SOL_MINT example_env) \<and>
   find (account_matches example_env (toBase58 example_env (PublicKey [7])) (PublicKey [4]) None)
     (map (cache_get example_cache) (byParser_TokenAccountParser example_cache)) =
     Some (Some example_native_account) \<and>
   findOrCreateAccountByMint example_env example_cache example_account (PublicKey [1])
       (PublicKey [4]) [] [] 2039280 (PublicKey [7]) [] None =
     (PublicKey [5],
      [SystemProgram_createAccount
         \<lparr>fromPubkey = PublicKey [1], newAccountPubkey = PublicKey [5], lamports = 2039280,
          space = 165, programId = PublicKey [6]\<rparr>,
       Token_createInitAccountInstruction (PublicKey [6]) (PublicKey [7]) (PublicKey [5])
         (PublicKey [4])],
      [Token_createCloseAccountInstruction (PublicKey [6]) (PublicKey [5]) (PublicKey [1])
         (PublicKey [1]) []],
      [example_account])"
proof -
  have h: "toBase58 example_env (PublicKey [7]) =
           toBase58 example_env (WRAPPED_SOL_MINT example_env)"
    by (simp add: example_env_def)
  have c: "find (account_matches example_env (toBase58 example_env (PublicKey [7]))
                   (PublicKey [4]) None)
             (map (cache_get example_cache) (byParser_TokenAccountParser example_cache)) =
           Some (Some example_native_account)"
    by (simp add: example_cache_entries account_matches_def example_env_def
        example_token_account_def example_native_account_def)
  have r: "findOrCreateAccountByMint example_env example_cache example_account (PublicKey [1])
       (PublicKey [4]) [] [] 2039280 (PublicKey [7]) [] None =
     (PublicKey [5],
      [SystemProgram_createAccount
         \<lparr>fromPubkey = PublicKey [1], newAccountPubkey = PublicKey [5], lamports = 2039280,
          space = 165, programId = PublicKey [6]\<rparr>,
       Token_createInitAccountInstruction (PublicKey [6]) (PublicKey [7]) (PublicKey [5])
         (PublicKey [4])],
      [Token_createCloseAccountInstruction (PublicKey [6]) (PublicKey [5]) (PublicKey [1])
         (PublicKey [1]) []],
      [example_account])"
    using findOrCreateAccountByMint_wrapped_sol [OF h, of "PublicKey [1]" example_account
        2039280 "PublicKey [4]" example_cache "[]" "[]" "[]" None]
    by (simp add: Let_def example_env_def example_account_def)
  from h c r show ?thesis by blast
qed

text \<open>
  C6: with a mint that is not the wrapped-native mint and a cache in which exactly one
  entry matches the mint and the owner and is not excluded, \<open>findOrCreateAccountByMint\<close>
  returns the identifier of that account and leaves the instruction list, the cleanup list
  and the signer list as they were.
\<close>

theorem findOrCreateAccountByMint_reuses_cached:
  assumes "toBase58 E m \<noteq> toBase58 E (WRAPPED_SOL_MINT E)"
    and "filter (account_matches E (toBase58 E m) owner excluded)
           (map (cache_get cache) (byParser_TokenAccountParser cache)) = [Some a]"
  shows "findOrCreateAccountByMint E cache account payer owner instructions cleanupInstructions
           rent m signers excluded =
         (ta_pubkey a, instructions, cleanupInstructions, signers)"
  using assms(1) find_of_single_match [OF assms(2)]
  by (simp add: findOrCreateAccountByMint_def Let_def)

theorem findOrCreateAccountByMint_reuses_cached_witness:
  "toBase58 example_env (PublicKey [2]) \<noteq> toBase58 example_env (WRAPPED_SOL_MINT example_env) \<and>
   filter (account_matches example_env (toBase58 example_env (PublicKey [2])) (PublicKey [4])
             (Some {''other''}))
     (map (cache_get example_cache) (byParser_TokenAccountParser example_cache)) =
     [Some example_token_account] \<and>
   findOrCreateAccountByMint example_env example_cache example_account (PublicKey [1])
       (PublicKey [4]) [] [] 2039280 (PublicKey [2]) [] (Some {''other''}) =
     (PublicKey [3], [], [], [])"
proof -
  have h: "toBase58 example_env (PublicKey [2]) \<noteq>
           toBase58 example_env (WRAPPED_SOL_MINT example_env)"
    by (simp add: example_env_def)
  have c: "filter (account_matches example_env (toBase58 example_env (PublicKey [2]))
                     (PublicKey [4]) (Some {''other''}))
             (map (cache_get example_cache) (byParser_TokenAccountParser example_cache)) =
           [Some example_token_account]"
    by (simp add: example_cache_entries account_matches_def example_env_def
        example_token_account_def example_native_account_def)
  have r: "findOrCreateAccountByMint example_env example_cache example_account (PublicKey [1])
       (PublicKey [4]) [] [] 2039280 (PublicKey [2]) [] (Some {''other''}) =
     (PublicKey [3], [], [], [])"
    using findOrCreateAccountByMint_reuses_cached [OF h c, of example_account "PublicKey [1]"
        "[]" "[]" 2039280 "[]"]
    by (simp add: example_token_account_def)
  from h c r show ?thesis by blast
qed

text \<open>
  C10: for a token account that is not native, \<open>ensureSplAccount\<close> returns its identifier
  and leaves the instruction list, the cleanup list and the signer list unchanged; for a
  native one it creates a fresh wrapped-native account, initialises it, and schedules its
  close instruction in the cleanup list.
\<close>

theorem ensureSplAccount_native_only:
  "(\<not> isNative (info toCheck) \<longrightarrow>
      ensureSplAccount E account instructions cleanupInstructions toCheck payer amount signers =
        (ta_pubkey toCheck, instructions, cleanupInstructions, signers)) \<and>
   (isNative (info toCheck) \<longrightarrow>
      ensureSplAccount E account instructions cleanupInstructions toCheck payer amount signers =
        (publicKey account,
         instructions @
           [SystemProgram_createAccount
              \<lparr>fromPubkey = payer, newAccountPubkey = publicKey account, lamports = amount,
               space = AccountLayout_span E, programId = TOKEN_PROGRAM_ID E\<rparr>,
            Token_createInitAccountInstruction (TOKEN_PROGRAM_ID E) (WRAPPED_SOL_MINT E)
              (publicKey account) payer],
         cleanupInstructions @
           [Token_createCloseAccountInstruction (TOKEN_PROGRAM_ID E) (publicKey account)
              payer payer []],
         signers @ [account]))"
  by (simp add: ensureSplAccount_def createUninitializedAccount_def)

theorem ensureSplAccount_native_only_witness:
  "\<not> isNative (info example_token_account) \<and>
   ensureSplAccount example_env example_account [] [] example_token_account (PublicKey [1])
       2039280 [] =
     (PublicKey [3], [], [], []) \<and>
   isNative (info example_native_account) \<and>
   ensureSplAccount example_env example_account [] [] example_native_account (PublicKey [1])
       2039280 [] =
     (PublicKey [5],
      [SystemProgram_createAccount
         \<lparr>fromPubkey = PublicKey [1], newAccountPubkey = PublicKey [5], lamports = 2039280,
          space = 165, programId = PublicKey [6]\<rparr>,
       Token_createInitAccountInstruction (PublicKey [6]) (PublicKey [7]) (PublicKey [5])
         (PublicKey [1])],
      [Token_createCloseAccountInstruction (PublicKey [6]) (PublicKey [5]) (PublicKey [1])
         (PublicKey [1]) []],
      [example_account])"
proof -
  have n: "\<not> isNative (info example_token_account)"
    by (simp add: example_token_account_def)
  have y: "isNative (info example_native_account)"
    by (simp add: example_native_account_def)
  have a: "ensureSplAccount example_env example_account [] [] example_token_account
             (PublicKey [1]) 2039280 [] = (PublicKey [3], [], [], [])"
    using n ensureSplAccount_native_only [of example_token_account example_env example_account
        "[]" "[]" "PublicKey [1]" 2039280 "[]"]
    by (simp add: example_token_account_def)
  have b: "ensureSplAccount example_env example_account [] [] example_native_account
             (PublicKey [1]) 2039280 [] =
     (PublicKey [5],
      [SystemProgram_createAccount
         \<lparr>fromPubkey = PublicKey [1], newAccountPubkey = PublicKey [5], lamports = 2039280,
          space = 165, programId = PublicKey [6]\<rparr>,
       Token_createInitAccountInstruction (PublicKey [6]) (PublicKey [7]) (PublicKey [5])
         (PublicKey [1])],
      [Token_createCloseAccountInstruction (PublicKey [6]) (PublicKey [5]) (PublicKey [1])
         (PublicKey [1]) []],
      [example_account])"
    using y ensureSplAccount_native_only [of example_native_account example_env example_account
        "[]" "[]" "PublicKey [1]" 2039280 "[]"]
    by (simp add: example_env_def example_account_def)
  from n a y b show ?thesis by blast
qed

section \<open>Properties of the metadata instructions\<close>








end
